theory Spec2Isabelle
  imports Main
begin

section \<open>The reaction client of stream-js (src/reaction.ts)\<close>

text \<open>
  The class \<open>StreamReaction\<close> assembles the argument of one call of the transport
  (\<open>client.get\<close>, \<open>client.post\<close>, \<open>client.put\<close>) per operation. The model below
  computes that argument. Objects of TypeScript types whose fields are all optional are
  records of \<open>option\<close> values: \<open>None\<close> is a field that is absent (or \<open>undefined\<close>).
\<close>

subsection \<open>Values\<close>

text \<open>\<open>unknown\<close> payload values, as far as JSON can carry them.\<close>

datatype json =
    JNull
  | JBool bool
  | JNum int
  | JStr string
  | JArr "json list"
  | JObj "(string \<times> json) list"

text \<open>\<open>UnknownRecord\<close> and \<open>TargetFeedsExtraData = Record<string, unknown>\<close>:
  the empty object \<open>{}\<close> is the empty list.\<close>

type_synonym UnknownRecord = "(string \<times> json) list"
type_synonym TargetFeedsExtraData = "(string \<times> json) list"

text \<open>
  Modelled from the spec: the feed handle, class \<open>StreamFeed\<close> of \<open>./feed\<close>, whose
  declaration is not part of the sources at hand. The reaction client reads only its
  \<open>id\<close> field (``a feed handle's \<open>.id\<close>''); the field is named \<open>feed_id\<close> here.
\<close>

record StreamFeed =
  feed_id :: string

text \<open>\<open>TargetFeed = string | StreamFeed\<close>.\<close>

datatype TargetFeed = FeedName string | Feed StreamFeed

text \<open>The argument type \<open>string | { id: string }\<close> of \<open>add\<close> and \<open>addChild\<close>:
  \<open>RefObject s\<close> is an object whose \<open>id\<close> field holds \<open>s\<close>.\<close>

datatype Ref = RefId string | RefObject string

text \<open>\<open>ReactionBody<T>\<close> (lines 11-20).\<close>

record ReactionBody =
  activity_id :: "string option"
  data :: "UnknownRecord option"
  id' :: "string option"
  kind :: "string option"
  parent :: "string option"
  target_feeds :: "string list option"
  target_feeds_extra_data :: "TargetFeedsExtraData option"
  user_id :: "string option"

text \<open>The type of the \<open>conditions\<close> parameter of \<open>filter\<close> (lines 205-216). The docstring
  declares \<open>limit\<close> an integer.\<close>

record conditions =
  activity_id :: "string option"
  id_gt :: "string option"
  id_gte :: "string option"
  id_lt :: "string option"
  id_lte :: "string option"
  kind :: "string option"
  limit :: "int option"
  reaction_id :: "string option"
  user_id :: "string option"
  with_activity_data :: "bool option"

text \<open>The options parameters of \<open>update\<close>, \<open>addChild\<close> and \<open>add\<close>: each type has the
  fields of the one before it and one more.\<close>

record UpdateOptions =
  targetFeeds :: "TargetFeed list option"
  targetFeedsExtraData :: "TargetFeedsExtraData option"

record AddChildOptions = UpdateOptions +
  userId :: "string option"

record AddOptions = AddChildOptions +
  id' :: "string option"

text \<open>The argument object of a transport call, and the transport method called with it.\<close>

datatype http_method = GET | POST | PUT | DELETE

record request =
  http_method :: http_method
  url :: string
  qs :: "conditions option"
  body :: "ReactionBody option"
  signature :: string

datatype error = SiteError string | TypeError

subsection \<open>JavaScript truthiness and the short-circuit operators\<close>

text \<open>A value of type \<open>string | undefined\<close> is falsy when it is \<open>undefined\<close> or the
  empty string; a value of type \<open>number | undefined\<close> when it is \<open>undefined\<close> or zero.\<close>

definition truthy :: "string option \<Rightarrow> bool" where
  "truthy v = (case v of None \<Rightarrow> False | Some s \<Rightarrow> s \<noteq> [])"

definition truthy_num :: "int option \<Rightarrow> bool" where
  "truthy_num v = (case v of None \<Rightarrow> False | Some n \<Rightarrow> n \<noteq> 0)"

definition js_and :: "string option \<Rightarrow> string option \<Rightarrow> string option" where
  "js_and a b = (if truthy a then b else a)"

definition js_or :: "string option \<Rightarrow> string option \<Rightarrow> string option" where
  "js_or a b = (if truthy a then a else b)"

text \<open>\<open>Array.prototype.join\<close>; an \<open>undefined\<close> element is rendered as the empty string.\<close>

fun join :: "string \<Rightarrow> string list \<Rightarrow> string" where
  "join sep [] = []"
| "join sep [x] = x"
| "join sep (x # y # ys) = x @ sep @ join sep (y # ys)"

definition as_string :: "string option \<Rightarrow> string" where
  "as_string v = (case v of None \<Rightarrow> [] | Some s \<Rightarrow> s)"

subsection \<open>The operations\<close>

definition buildURL :: "string list \<Rightarrow> string" where
  "buildURL args = join ''/'' (''reaction'' # args) @ ''/''"

text \<open>\<open>_convertTargetFeeds\<close>; the parameter defaults to the empty array.\<close>

definition convertTargetFeeds :: "TargetFeed list option \<Rightarrow> string list" where
  "convertTargetFeeds targetFeeds' =
     map (\<lambda>elem. case elem of FeedName s \<Rightarrow> s | Feed f \<Rightarrow> feed_id f)
       (case targetFeeds' of None \<Rightarrow> [] | Some fs \<Rightarrow> fs)"

text \<open>\<open>add\<close> (lines 99-142): the argument of the \<open>client.post\<close> call.\<close>

definition add ::
  "string \<Rightarrow> string \<Rightarrow> Ref \<Rightarrow> UnknownRecord option \<Rightarrow> AddOptions option \<Rightarrow> request" where
  "add token kind' activity data' options =
     (let opts = (case options of
                    None \<Rightarrow> \<lparr>targetFeeds = None, targetFeedsExtraData = None,
                              userId = None, id' = None\<rparr>
                  | Some opts \<Rightarrow> opts);
          targetFeeds' = (case targetFeeds opts of None \<Rightarrow> [] | Some fs \<Rightarrow> fs);
          body0 = \<lparr>ReactionBody.activity_id =
                      Some (case activity of RefObject i \<Rightarrow> i | RefId s \<Rightarrow> s),
                    data = Some (case data' of None \<Rightarrow> [] | Some d \<Rightarrow> d),
                    ReactionBody.id' = AddOptions.id' opts,
                    ReactionBody.kind = Some kind',
                    parent = None,
                    target_feeds = Some (convertTargetFeeds (Some targetFeeds')),
                    target_feeds_extra_data = None,
                    ReactionBody.user_id = userId opts\<rparr>;
          body1 = (case targetFeedsExtraData opts of
                     None \<Rightarrow> body0
                   | Some extra \<Rightarrow> body0\<lparr>target_feeds_extra_data := Some extra\<rparr>)
      in \<lparr>http_method = POST, url = buildURL [], qs = None, body = Some body1,
          signature = token\<rparr>)"

text \<open>\<open>addChild\<close> (lines 144-188).\<close>

definition addChild ::
  "string \<Rightarrow> string \<Rightarrow> Ref \<Rightarrow> UnknownRecord option \<Rightarrow> AddChildOptions option \<Rightarrow> request" where
  "addChild token kind' reaction data' options =
     (let opts = (case options of
                    None \<Rightarrow> \<lparr>targetFeeds = None, targetFeedsExtraData = None, userId = None\<rparr>
                  | Some opts \<Rightarrow> opts);
          targetFeeds' = (case targetFeeds opts of None \<Rightarrow> [] | Some fs \<Rightarrow> fs);
          body0 = \<lparr>ReactionBody.activity_id = None,
                    data = Some (case data' of None \<Rightarrow> [] | Some d \<Rightarrow> d),
                    ReactionBody.id' = None,
                    ReactionBody.kind = Some kind',
                    parent = Some (case reaction of RefObject i \<Rightarrow> i | RefId s \<Rightarrow> s),
                    target_feeds = Some (convertTargetFeeds (Some targetFeeds')),
                    target_feeds_extra_data = None,
                    ReactionBody.user_id = userId opts\<rparr>;
          body1 = (case targetFeedsExtraData opts of
                     None \<Rightarrow> body0
                   | Some extra \<Rightarrow> body0\<lparr>target_feeds_extra_data := Some extra\<rparr>)
      in \<lparr>http_method = POST, url = buildURL [], qs = None, body = Some body1,
          signature = token\<rparr>)"

text \<open>\<open>update\<close> (lines 257-290): \<open>data\<close> is passed on as it is.\<close>

definition update ::
  "string \<Rightarrow> string \<Rightarrow> UnknownRecord option \<Rightarrow> UpdateOptions option \<Rightarrow> request" where
  "update token ident data' options =
     (let opts = (case options of
                    None \<Rightarrow> \<lparr>targetFeeds = None, targetFeedsExtraData = None\<rparr>
                  | Some opts \<Rightarrow> opts);
          targetFeeds' = (case targetFeeds opts of None \<Rightarrow> [] | Some fs \<Rightarrow> fs);
          body0 = \<lparr>ReactionBody.activity_id = None,
                    data = data',
                    ReactionBody.id' = None,
                    ReactionBody.kind = None,
                    parent = None,
                    target_feeds = Some (convertTargetFeeds (Some targetFeeds')),
                    target_feeds_extra_data = None,
                    ReactionBody.user_id = None\<rparr>;
          body1 = (case targetFeedsExtraData opts of
                     None \<Rightarrow> body0
                   | Some extra \<Rightarrow> body0\<lparr>target_feeds_extra_data := Some extra\<rparr>)
      in \<lparr>http_method = PUT, url = buildURL [ident], qs = None, body = Some body1,
          signature = token\<rparr>)"

subsection \<open>filter, with its objects in a store\<close>

text \<open>
  \<open>filter\<close> (lines 205-255) creates the object \<open>qs\<close> and assigns to its \<open>limit\<close>
  field, and it reads the caller's object \<open>conditions\<close> again afterwards (line 246). The
  objects therefore live in a store, a list indexed by address; the rest pattern
  \<open>...qs\<close> allocates a new object at the end of the store, holding the fields of
  \<open>conditions\<close> other than the three taken out by name. A call without an object
  (an address outside the store) fails at the destructuring.

  The outcome \<open>Inl e\<close> is the exception \<open>e\<close> thrown; \<open>Inr r\<close> is the one call
  \<open>client.get(r)\<close> of line 250, which an exception thrown before it does not reach.
\<close>

type_synonym addr = nat
type_synonym store = "conditions list"

definition filter' :: "string \<Rightarrow> addr \<Rightarrow> store \<Rightarrow> (error + request) \<times> store" where
  "filter' token cond h =
     (if length h \<le> cond then (Inl TypeError, h)
      else
        let userId' = user_id (h ! cond);
            activityId = activity_id (h ! cond);
            reactionId = reaction_id (h ! cond);
            qs' = length h;
            h1 = h @ [(h ! cond)\<lparr>user_id := None, activity_id := None, reaction_id := None\<rparr>];
            h2 = (if \<not> truthy_num (limit (h1 ! qs'))
                  then h1[qs' := (h1 ! qs')\<lparr>limit := Some 10\<rparr>]
                  else h1)
        in
          if (if truthy userId' then 1 else 0) + (if truthy activityId then 1 else 0)
               + (if truthy reactionId then 1 else 0) \<noteq> (1::nat)
          then (Inl (SiteError
                  ''Must provide exactly one value for one of these params: user_id, activity_id, reaction_id''),
                h2)
          else
            let lookupType = js_or (js_or (js_and userId' (Some ''user_id''))
                                          (js_and activityId (Some ''activity_id'')))
                                   (js_and reactionId (Some ''reaction_id''));
                value = js_or (js_or userId' activityId) reactionId;
                url' = (if truthy (kind (h2 ! cond))
                        then buildURL [as_string lookupType, as_string value,
                                       as_string (kind (h2 ! cond))]
                        else buildURL [as_string lookupType, as_string value])
            in (Inr \<lparr>http_method = GET, url = url', qs = Some (h2 ! qs'), body = None,
                     signature = token\<rparr>,
                h2))"

text \<open>The object \<open>{}\<close> as a \<open>conditions\<close> argument: no field is present.\<close>

definition empty_conditions :: conditions where
  "empty_conditions = \<lparr>activity_id = None, id_gt = None, id_gte = None, id_lt = None,
     id_lte = None, kind = None, limit = None, reaction_id = None, user_id = None,
     with_activity_data = None\<rparr>"

section \<open>Basic facts\<close>

lemma buildURL_two: "buildURL [a, v] = ''reaction/'' @ a @ ''/'' @ v @ ''/''"
  by (simp add: buildURL_def)

lemma buildURL_three: "buildURL [a, v, k] = ''reaction/'' @ a @ ''/'' @ v @ ''/'' @ k @ ''/''"
  by (simp add: buildURL_def)

lemma truthy_simps [simp]:
  "truthy None = False" "truthy (Some s) = (s \<noteq> [])"
  by (simp_all add: truthy_def)

lemma truthy_num_simps [simp]:
  "truthy_num None = False" "truthy_num (Some n) = (n \<noteq> 0)"
  by (simp_all add: truthy_num_def)

text \<open>The store after a call on an existing object: one object more, the copy made by
  the rest pattern with its \<open>limit\<close> defaulted.\<close>

lemma filter'_store:
  "cond < length h \<Longrightarrow> snd (filter' tok cond h) =
     h @ [(h ! cond)\<lparr>user_id := None, activity_id := None, reaction_id := None,
            limit := (if truthy_num (limit (h ! cond)) then limit (h ! cond) else Some 10)\<rparr>]"
  by (simp add: filter'_def Let_def nth_append)

text \<open>The two outcomes of the check of line 237.\<close>

lemma filter'_invalid:
  assumes "cond < length h"
    and "length (filter truthy [user_id (h ! cond), activity_id (h ! cond), reaction_id (h ! cond)]) \<noteq> 1"
  shows "fst (filter' tok cond h) = Inl (SiteError
    ''Must provide exactly one value for one of these params: user_id, activity_id, reaction_id'')"
  using assms by (simp add: filter'_def Let_def nth_append split: if_splits)

lemma filter'_valid:
  assumes "cond < length h"
    and "length (filter truthy [user_id (h ! cond), activity_id (h ! cond), reaction_id (h ! cond)]) = 1"
  shows "fst (filter' tok cond h) = Inr \<lparr>http_method = GET,
     url = (if truthy (kind (h ! cond))
            then buildURL [as_string (js_or (js_or (js_and (user_id (h ! cond)) (Some ''user_id''))
                                                   (js_and (activity_id (h ! cond)) (Some ''activity_id'')))
                                            (js_and (reaction_id (h ! cond)) (Some ''reaction_id''))),
                           as_string (js_or (js_or (user_id (h ! cond)) (activity_id (h ! cond)))
                                            (reaction_id (h ! cond))),
                           as_string (kind (h ! cond))]
            else buildURL [as_string (js_or (js_or (js_and (user_id (h ! cond)) (Some ''user_id''))
                                                   (js_and (activity_id (h ! cond)) (Some ''activity_id'')))
                                            (js_and (reaction_id (h ! cond)) (Some ''reaction_id''))),
                           as_string (js_or (js_or (user_id (h ! cond)) (activity_id (h ! cond)))
                                            (reaction_id (h ! cond)))]),
     qs = Some ((h ! cond)\<lparr>user_id := None, activity_id := None, reaction_id := None,
            limit := (if truthy_num (limit (h ! cond)) then limit (h ! cond) else Some 10)\<rparr>),
     body = None, signature = tok\<rparr>"
  using assms by (simp add: filter'_def Let_def nth_append split: if_splits)

lemma filter'_Inr_valid:
  assumes "cond < length h" and "fst (filter' tok cond h) = Inr r"
  shows "length (filter truthy [user_id (h ! cond), activity_id (h ! cond), reaction_id (h ! cond)]) = 1"
proof (rule ccontr)
  assume "length (filter truthy [user_id (h ! cond), activity_id (h ! cond), reaction_id (h ! cond)]) \<noteq> 1"
  from filter'_invalid [OF assms(1) this, of tok] assms(2) show False by simp
qed

lemma filter'_Inr_request:
  assumes "cond < length h" and "fst (filter' tok cond h) = Inr r"
  shows "r = \<lparr>http_method = GET,
     url = (if truthy (kind (h ! cond))
            then buildURL [as_string (js_or (js_or (js_and (user_id (h ! cond)) (Some ''user_id''))
                                                   (js_and (activity_id (h ! cond)) (Some ''activity_id'')))
                                            (js_and (reaction_id (h ! cond)) (Some ''reaction_id''))),
                           as_string (js_or (js_or (user_id (h ! cond)) (activity_id (h ! cond)))
                                            (reaction_id (h ! cond))),
                           as_string (kind (h ! cond))]
            else buildURL [as_string (js_or (js_or (js_and (user_id (h ! cond)) (Some ''user_id''))
                                                   (js_and (activity_id (h ! cond)) (Some ''activity_id'')))
                                            (js_and (reaction_id (h ! cond)) (Some ''reaction_id''))),
                           as_string (js_or (js_or (user_id (h ! cond)) (activity_id (h ! cond)))
                                            (reaction_id (h ! cond)))]),
     qs = Some ((h ! cond)\<lparr>user_id := None, activity_id := None, reaction_id := None,
            limit := (if truthy_num (limit (h ! cond)) then limit (h ! cond) else Some 10)\<rparr>),
     body = None, signature = tok\<rparr>"
  using filter'_valid [OF assms(1) filter'_Inr_valid [OF assms], of tok] assms(2) by simp

lemma filter'_Inr_qs:
  assumes "cond < length h" and "fst (filter' tok cond h) = Inr r"
  shows "qs r = Some ((h ! cond)\<lparr>user_id := None, activity_id := None, reaction_id := None,
          limit := (if limit (h ! cond) = None \<or> limit (h ! cond) = Some 0 then Some 10
                    else limit (h ! cond))\<rparr>)"
  by (cases "limit (h ! cond)") (simp_all add: filter'_Inr_request [OF assms])

lemma filter'_url:
  assumes "cond < length h"
    and "length (filter truthy [user_id (h ! cond), activity_id (h ! cond), reaction_id (h ! cond)]) = 1"
    and "fst (filter' tok cond h) = Inr r"
  shows "user_id (h ! cond) = Some v \<Longrightarrow> v \<noteq> [] \<Longrightarrow>
           url r = ''reaction/user_id/'' @ v @ ''/'' @ (case kind (h ! cond) of None \<Rightarrow> [] | Some k \<Rightarrow> if k = [] then [] else k @ ''/'')"
    and "activity_id (h ! cond) = Some v \<Longrightarrow> v \<noteq> [] \<Longrightarrow>
           url r = ''reaction/activity_id/'' @ v @ ''/'' @ (case kind (h ! cond) of None \<Rightarrow> [] | Some k \<Rightarrow> if k = [] then [] else k @ ''/'')"
    and "reaction_id (h ! cond) = Some v \<Longrightarrow> v \<noteq> [] \<Longrightarrow>
           url r = ''reaction/reaction_id/'' @ v @ ''/'' @ (case kind (h ! cond) of None \<Rightarrow> [] | Some k \<Rightarrow> if k = [] then [] else k @ ''/'')"
  using assms(2)
  by (simp_all add: filter'_Inr_request [OF assms(1) assms(3)] js_or_def js_and_def as_string_def
      buildURL_two buildURL_three split: option.splits if_splits)

section \<open>The lookup axis of filter\<close>

text \<open>
  Claim C1, as the code has it. For every conditions object, \<open>filter\<close> counts the fields
  among \<open>user_id\<close>, \<open>activity_id\<close>, \<open>reaction_id\<close> that hold a non-empty string
  (the check of line 237 is by truthiness). When that number is not one, the call throws
  the validation error whose message names the three fields, and the \<open>client.get\<close> call
  is not reached; when it is one, no error is thrown and the \<open>GET\<close> request is issued.
\<close>

theorem filter_validation:
  assumes "cond < length h"
  shows "(length (filter truthy [user_id (h ! cond), activity_id (h ! cond), reaction_id (h ! cond)]) \<noteq> 1
          \<longrightarrow> fst (filter' tok cond h) = Inl (SiteError
    ''Must provide exactly one value for one of these params: user_id, activity_id, reaction_id''))
       \<and> (length (filter truthy [user_id (h ! cond), activity_id (h ! cond), reaction_id (h ! cond)]) = 1
          \<longrightarrow> (\<exists>r. fst (filter' tok cond h) = Inr r \<and> http_method r = GET))"
proof (intro conjI impI)
  assume "length (filter truthy [user_id (h ! cond), activity_id (h ! cond), reaction_id (h ! cond)]) \<noteq> 1"
  from filter'_invalid [OF assms this]
  show "fst (filter' tok cond h) = Inl (SiteError
    ''Must provide exactly one value for one of these params: user_id, activity_id, reaction_id'')" .
next
  assume "length (filter truthy [user_id (h ! cond), activity_id (h ! cond), reaction_id (h ! cond)]) = 1"
  from filter'_valid [OF assms this, of tok]
  show "\<exists>r. fst (filter' tok cond h) = Inr r \<and> http_method r = GET"
    by simp
qed

text \<open>The theorem at three calls: two axes, no axis, and one axis.\<close>

theorem filter_validation_witness:
  "fst (filter' ''token'' 0 [empty_conditions\<lparr>activity_id := Some ''a1'', reaction_id := Some ''r1''\<rparr>])
     = Inl (SiteError
    ''Must provide exactly one value for one of these params: user_id, activity_id, reaction_id'')
   \<and> fst (filter' ''token'' 0 [empty_conditions])
     = Inl (SiteError
    ''Must provide exactly one value for one of these params: user_id, activity_id, reaction_id'')
   \<and> (\<exists>r. fst (filter' ''token'' 0 [empty_conditions\<lparr>activity_id := Some ''a1''\<rparr>]) = Inr r
          \<and> http_method r = GET)"
  using filter_validation [of 0 "[empty_conditions\<lparr>activity_id := Some ''a1'', reaction_id := Some ''r1''\<rparr>]" "''token''"]
    filter_validation [of 0 "[empty_conditions]" "''token''"]
    filter_validation [of 0 "[empty_conditions\<lparr>activity_id := Some ''a1''\<rparr>]" "''token''"]
  by (simp add: empty_conditions_def)

text \<open>
  Claim C1 as it is written counts the fields that are present. In \<open>{user_id: ""}\<close>
  exactly one of the three fields is present, and the call throws the validation error; in
  \<open>{user_id: "", activity_id: "a1"}\<close> two of them are present, and the request is issued.
\<close>

theorem filter_validation_counterexample:
  "user_id (empty_conditions\<lparr>user_id := Some ''''\<rparr>) \<noteq> None
   \<and> activity_id (empty_conditions\<lparr>user_id := Some ''''\<rparr>) = None
   \<and> reaction_id (empty_conditions\<lparr>user_id := Some ''''\<rparr>) = None
   \<and> fst (filter' ''token'' 0 [empty_conditions\<lparr>user_id := Some ''''\<rparr>])
       = Inl (SiteError
    ''Must provide exactly one value for one of these params: user_id, activity_id, reaction_id'')
   \<and> user_id (empty_conditions\<lparr>user_id := Some '''', activity_id := Some ''a1''\<rparr>) \<noteq> None
   \<and> activity_id (empty_conditions\<lparr>user_id := Some '''', activity_id := Some ''a1''\<rparr>) \<noteq> None
   \<and> fst (filter' ''token'' 0 [empty_conditions\<lparr>user_id := Some '''', activity_id := Some ''a1''\<rparr>])
       = Inr \<lparr>http_method = GET, url = ''reaction/activity_id/a1/'',
              qs = Some (empty_conditions\<lparr>limit := Some 10\<rparr>), body = None,
              signature = ''token''\<rparr>"
  by (simp add: empty_conditions_def filter'_def Let_def js_or_def js_and_def as_string_def
      buildURL_def)

section \<open>The request of filter\<close>

text \<open>
  Claim C2, as the code has it. For every \<open>filter\<close> call that passes validation, the
  request is a \<open>GET\<close> without body, signed with the token. Exactly one of the three axis
  fields holds a non-empty string \<open>v\<close>, and the URL is \<open>reaction/{axis}/{v}/{kind}/\<close>
  when \<open>kind\<close> holds a non-empty string and \<open>reaction/{axis}/{v}/\<close> otherwise. The
  query parameters are the conditions without the three axis fields, \<open>limit\<close> replaced
  by 10 when it is unset or zero: the range cursors, \<open>with_activity_data\<close> and also
  \<open>kind\<close>, which the rest pattern of line 232 leaves in \<open>qs\<close>.
\<close>

theorem filter_request:
  assumes "cond < length h" and "fst (filter' tok cond h) = Inr r"
  shows "http_method r = GET \<and> body r = None \<and> signature r = tok
    \<and> qs r = Some ((h ! cond)\<lparr>user_id := None, activity_id := None, reaction_id := None,
          limit := (if limit (h ! cond) = None \<or> limit (h ! cond) = Some 0 then Some 10
                    else limit (h ! cond))\<rparr>)
    \<and> length (filter truthy [user_id (h ! cond), activity_id (h ! cond), reaction_id (h ! cond)]) = 1
    \<and> (\<forall>v. user_id (h ! cond) = Some v \<and> v \<noteq> [] \<longrightarrow>
          url r = ''reaction/user_id/'' @ v @ ''/'' @ (case kind (h ! cond) of None \<Rightarrow> [] | Some k \<Rightarrow> if k = [] then [] else k @ ''/''))
    \<and> (\<forall>v. activity_id (h ! cond) = Some v \<and> v \<noteq> [] \<longrightarrow>
          url r = ''reaction/activity_id/'' @ v @ ''/'' @ (case kind (h ! cond) of None \<Rightarrow> [] | Some k \<Rightarrow> if k = [] then [] else k @ ''/''))
    \<and> (\<forall>v. reaction_id (h ! cond) = Some v \<and> v \<noteq> [] \<longrightarrow>
          url r = ''reaction/reaction_id/'' @ v @ ''/'' @ (case kind (h ! cond) of None \<Rightarrow> [] | Some k \<Rightarrow> if k = [] then [] else k @ ''/''))"
proof -
  have one: "length (filter truthy [user_id (h ! cond), activity_id (h ! cond), reaction_id (h ! cond)]) = 1"
    using assms by (rule filter'_Inr_valid)
  have m: "http_method r = GET \<and> body r = None \<and> signature r = tok"
    by (simp add: filter'_Inr_request [OF assms])
  note q = filter'_Inr_qs [OF assms]
  note u = filter'_url [OF assms(1) one assms(2)]
  from m q one u show ?thesis by blast
qed

text \<open>The theorem at \<open>filter({activity_id: "a1", kind: "like", id_lt: "r9"})\<close>.\<close>

theorem filter_request_witness:
  "url (projr (fst (filter' ''token'' 0
       [empty_conditions\<lparr>activity_id := Some ''a1'', kind := Some ''like'', id_lt := Some ''r9''\<rparr>])))
     = ''reaction/activity_id/a1/like/''
   \<and> qs (projr (fst (filter' ''token'' 0
       [empty_conditions\<lparr>activity_id := Some ''a1'', kind := Some ''like'', id_lt := Some ''r9''\<rparr>])))
     = Some (empty_conditions\<lparr>kind := Some ''like'', id_lt := Some ''r9'', limit := Some 10\<rparr>)"
proof -
  let ?h = "[empty_conditions\<lparr>activity_id := Some ''a1'', kind := Some ''like'', id_lt := Some ''r9''\<rparr>]"
  have len: "0 < length ?h" by simp
  have "length (filter truthy [user_id (?h ! 0), activity_id (?h ! 0), reaction_id (?h ! 0)]) = 1"
    by (simp add: empty_conditions_def)
  from filter'_valid [OF len this, of "''token''"]
  have ok: "fst (filter' ''token'' 0 ?h) = Inr (projr (fst (filter' ''token'' 0 ?h)))"
    by simp
  from filter_request [OF len ok] show ?thesis
    by (simp add: empty_conditions_def)
qed

text \<open>
  Claim C2 as it is written has \<open>kind\<close> conveyed as a path segment only, and a
  \<open>kind\<close> segment in the URL whenever \<open>kind\<close> is present. The call
  \<open>filter({user_id: "john", kind: "like"})\<close> sends \<open>kind\<close> in the path and in the
  query parameters; the call \<open>filter({user_id: "john", kind: ""})\<close>, where \<open>kind\<close>
  is present, has no \<open>kind\<close> segment in its URL.
\<close>

theorem filter_request_counterexample:
  "fst (filter' ''token'' 0 [empty_conditions\<lparr>user_id := Some ''john'', kind := Some ''like''\<rparr>])
     = Inr \<lparr>http_method = GET, url = ''reaction/user_id/john/like/'',
            qs = Some (empty_conditions\<lparr>kind := Some ''like'', limit := Some 10\<rparr>),
            body = None, signature = ''token''\<rparr>
   \<and> kind (empty_conditions\<lparr>kind := Some ''like'', limit := Some 10\<rparr>) = Some ''like''
   \<and> kind (empty_conditions\<lparr>user_id := Some ''john'', kind := Some ''''\<rparr>) \<noteq> None
   \<and> fst (filter' ''token'' 0 [empty_conditions\<lparr>user_id := Some ''john'', kind := Some ''''\<rparr>])
     = Inr \<lparr>http_method = GET, url = ''reaction/user_id/john/'',
            qs = Some (empty_conditions\<lparr>kind := Some '''', limit := Some 10\<rparr>),
            body = None, signature = ''token''\<rparr>"
  by (simp add: empty_conditions_def filter'_def Let_def js_or_def js_and_def as_string_def
      buildURL_def)

section \<open>The bodies of add, addChild and update\<close>

text \<open>
  Claim C3. For every string \<open>s\<close>, every kind, data and options, \<open>add\<close> builds the
  same request body from the raw id \<open>s\<close> and from the object \<open>{id: s}\<close>, with
  \<open>activity_id\<close> equal to \<open>s\<close>; \<open>addChild\<close> likewise, with \<open>s\<close> in the
  \<open>parent\<close> field and no \<open>activity_id\<close>.
\<close>

theorem add_ref_forms:
  "body (add token k (RefId s) d options) = body (add token k (RefObject s) d options)
   \<and> (\<exists>b. body (add token k (RefId s) d options) = Some b
          \<and> ReactionBody.activity_id b = Some s \<and> parent b = None)
   \<and> body (addChild token k (RefId s) d options') = body (addChild token k (RefObject s) d options')
   \<and> (\<exists>b. body (addChild token k (RefId s) d options') = Some b
          \<and> parent b = Some s \<and> ReactionBody.activity_id b = None)"
  by (simp add: add_def addChild_def Let_def split: option.split)

text \<open>
  Claim C4. In the request body of \<open>add\<close>, \<open>addChild\<close> and \<open>update\<close> the field
  \<open>target_feeds_extra_data\<close> is what the caller supplied as \<open>targetFeedsExtraData\<close>:
  the supplied object (the empty object \<open>Some []\<close> included) when there is one, and
  absent (\<open>None\<close>) when the caller supplied none or passed no options at all.
\<close>

theorem extra_data_forwarded:
  "(\<exists>b. body (add token k a d options) = Some b
        \<and> target_feeds_extra_data b
            = (case options of None \<Rightarrow> None | Some opts \<Rightarrow> targetFeedsExtraData opts))
   \<and> (\<exists>b. body (addChild token k a d options') = Some b
        \<and> target_feeds_extra_data b
            = (case options' of None \<Rightarrow> None | Some opts \<Rightarrow> targetFeedsExtraData opts))
   \<and> (\<exists>b. body (update token i d options'') = Some b
        \<and> target_feeds_extra_data b
            = (case options'' of None \<Rightarrow> None | Some opts \<Rightarrow> targetFeedsExtraData opts))"
  by (simp add: add_def addChild_def update_def Let_def split: option.split)

text \<open>
  Claim C5. The request body of \<open>update\<close> always has the \<open>target_feeds\<close> array: the
  normalized list when the caller supplied \<open>targetFeeds\<close>, the empty array when not. A
  call that omits \<open>targetFeeds\<close> (or all options) and a call that passes the empty list
  build the same body.
\<close>

theorem update_target_feeds:
  "(\<exists>b. body (update token i d options) = Some b
        \<and> target_feeds b
            = Some (case options of None \<Rightarrow> []
                    | Some opts \<Rightarrow> (case targetFeeds opts of None \<Rightarrow> []
                                     | Some fs \<Rightarrow> convertTargetFeeds (Some fs))))
   \<and> body (update token i d (Some \<lparr>targetFeeds = None, targetFeedsExtraData = x\<rparr>))
       = body (update token i d (Some \<lparr>targetFeeds = Some [], targetFeedsExtraData = x\<rparr>))
   \<and> body (update token i d None)
       = body (update token i d (Some \<lparr>targetFeeds = Some [], targetFeedsExtraData = None\<rparr>))"
  by (simp add: update_def Let_def convertTargetFeeds_def split: option.split)

text \<open>
  Claim C6. The target-feed normalization keeps the length of its input and maps the
  element at each position to a plain identifier: the string itself for a string, the
  handle's id for a feed handle.
\<close>

theorem convertTargetFeeds_elements:
  "length (convertTargetFeeds (Some fs)) = length fs
   \<and> (\<forall>i < length fs. convertTargetFeeds (Some fs) ! i
          = (case fs ! i of FeedName s \<Rightarrow> s | Feed f \<Rightarrow> feed_id f))"
  by (simp add: convertTargetFeeds_def)

text \<open>The theorem at a list of two names around one handle.\<close>

theorem convertTargetFeeds_elements_witness:
  "length (convertTargetFeeds (Some [FeedName ''timeline:1'', Feed \<lparr>feed_id = ''user:2''\<rparr>,
      FeedName ''flat:3''])) = 3
   \<and> convertTargetFeeds (Some [FeedName ''timeline:1'', Feed \<lparr>feed_id = ''user:2''\<rparr>,
      FeedName ''flat:3'']) ! 1 = ''user:2''"
  using convertTargetFeeds_elements
    [of "[FeedName ''timeline:1'', Feed \<lparr>feed_id = ''user:2''\<rparr>, FeedName ''flat:3'']"]
  by simp

section \<open>The limit of filter\<close>

text \<open>
  Claim C7. For every conditions object without a \<open>limit\<close> field, the query parameters
  of the request that \<open>filter\<close> issues carry \<open>limit\<close> equal to 10.
\<close>

theorem filter_limit_default:
  assumes "cond < length h" and "limit (h ! cond) = None"
    and "fst (filter' tok cond h) = Inr r"
  shows "\<exists>q. qs r = Some q \<and> limit q = Some 10"
  using filter'_Inr_qs [OF assms(1) assms(3)] assms(2) by simp

text \<open>The theorem at \<open>filter({user_id: "john"})\<close>.\<close>

theorem filter_limit_default_witness:
  "limit (empty_conditions\<lparr>user_id := Some ''john''\<rparr>) = None
   \<and> (\<exists>q. qs (projr (fst (filter' ''token'' 0 [empty_conditions\<lparr>user_id := Some ''john''\<rparr>])))
            = Some q \<and> limit q = Some 10)"
proof -
  let ?h = "[empty_conditions\<lparr>user_id := Some ''john''\<rparr>]"
  have len: "0 < length ?h" by simp
  have unset: "limit (?h ! 0) = None" by (simp add: empty_conditions_def)
  have "length (filter truthy [user_id (?h ! 0), activity_id (?h ! 0), reaction_id (?h ! 0)]) = 1"
    by (simp add: empty_conditions_def)
  from filter'_valid [OF len this, of "''token''"]
  have ok: "fst (filter' ''token'' 0 ?h) = Inr (projr (fst (filter' ''token'' 0 ?h)))"
    by simp
  from filter_limit_default [OF len unset ok] unset show ?thesis by simp
qed

text \<open>
  Claim C9. For every conditions object with \<open>limit\<close> set to 0, the query parameters
  of the request carry \<open>limit\<close> equal to 10; no request of \<open>filter\<close> carries a limit
  of zero.
\<close>

theorem filter_limit_zero:
  assumes "cond < length h" and "fst (filter' tok cond h) = Inr r"
  shows "\<exists>q. qs r = Some q \<and> limit q \<noteq> Some 0
            \<and> (limit (h ! cond) = Some 0 \<longrightarrow> limit q = Some 10)"
  using filter'_Inr_qs [OF assms] by simp

text \<open>The theorem at \<open>filter({reaction_id: "r1", limit: 0})\<close>.\<close>

theorem filter_limit_zero_witness:
  "limit (empty_conditions\<lparr>reaction_id := Some ''r1'', limit := Some 0\<rparr>) = Some 0
   \<and> (\<exists>q. qs (projr (fst (filter' ''token'' 0
                 [empty_conditions\<lparr>reaction_id := Some ''r1'', limit := Some 0\<rparr>])))
            = Some q \<and> limit q = Some 10)"
proof -
  let ?h = "[empty_conditions\<lparr>reaction_id := Some ''r1'', limit := Some 0\<rparr>]"
  have len: "0 < length ?h" by simp
  have zero: "limit (?h ! 0) = Some 0" by simp
  have "length (filter truthy [user_id (?h ! 0), activity_id (?h ! 0), reaction_id (?h ! 0)]) = 1"
    by (simp add: empty_conditions_def)
  from filter'_valid [OF len this, of "''token''"]
  have ok: "fst (filter' ''token'' 0 ?h) = Inr (projr (fst (filter' ''token'' 0 ?h)))"
    by simp
  from filter_limit_zero [OF len ok] zero show ?thesis by auto
qed

section \<open>Empty axis values\<close>

text \<open>
  Claim C8. An axis field set to the empty string counts as absent: the outcome of
  \<open>filter\<close> is the same as on the object with that field removed, for each of the three
  axes. So \<open>filter({user_id: ""})\<close> throws the validation error that \<open>filter({})\<close>
  throws; and an object with one axis set to a non-empty string \<open>v\<close>, another to the
  empty string and the third absent passes validation, its URL built from the axis of
  \<open>v\<close>.
\<close>

theorem filter_empty_axis:
  assumes "cond < length h"
  shows "(user_id (h ! cond) = Some [] \<longrightarrow>
            fst (filter' tok cond h) = fst (filter' tok cond (h[cond := (h ! cond)\<lparr>user_id := None\<rparr>])))
    \<and> (activity_id (h ! cond) = Some [] \<longrightarrow>
            fst (filter' tok cond h) = fst (filter' tok cond (h[cond := (h ! cond)\<lparr>activity_id := None\<rparr>])))
    \<and> (reaction_id (h ! cond) = Some [] \<longrightarrow>
            fst (filter' tok cond h) = fst (filter' tok cond (h[cond := (h ! cond)\<lparr>reaction_id := None\<rparr>])))
    \<and> fst (filter' tok 0 [empty_conditions\<lparr>user_id := Some []\<rparr>]) = fst (filter' tok 0 [empty_conditions])
    \<and> fst (filter' tok 0 [empty_conditions\<lparr>user_id := Some []\<rparr>]) = Inl (SiteError
    ''Must provide exactly one value for one of these params: user_id, activity_id, reaction_id'')
    \<and> (\<forall>v. v \<noteq> [] \<and> user_id (h ! cond) = Some v
            \<and> (activity_id (h ! cond) = Some [] \<and> reaction_id (h ! cond) = None
               \<or> activity_id (h ! cond) = None \<and> reaction_id (h ! cond) = Some [])
          \<longrightarrow> (\<exists>r. fst (filter' tok cond h) = Inr r
                 \<and> url r = ''reaction/user_id/'' @ v @ ''/'' @ (case kind (h ! cond) of None \<Rightarrow> [] | Some k \<Rightarrow> if k = [] then [] else k @ ''/'')))
    \<and> (\<forall>v. v \<noteq> [] \<and> activity_id (h ! cond) = Some v
            \<and> (user_id (h ! cond) = Some [] \<and> reaction_id (h ! cond) = None
               \<or> user_id (h ! cond) = None \<and> reaction_id (h ! cond) = Some [])
          \<longrightarrow> (\<exists>r. fst (filter' tok cond h) = Inr r
                 \<and> url r = ''reaction/activity_id/'' @ v @ ''/'' @ (case kind (h ! cond) of None \<Rightarrow> [] | Some k \<Rightarrow> if k = [] then [] else k @ ''/'')))
    \<and> (\<forall>v. v \<noteq> [] \<and> reaction_id (h ! cond) = Some v
            \<and> (user_id (h ! cond) = Some [] \<and> activity_id (h ! cond) = None
               \<or> user_id (h ! cond) = None \<and> activity_id (h ! cond) = Some [])
          \<longrightarrow> (\<exists>r. fst (filter' tok cond h) = Inr r
                 \<and> url r = ''reaction/reaction_id/'' @ v @ ''/'' @ (case kind (h ! cond) of None \<Rightarrow> [] | Some k \<Rightarrow> if k = [] then [] else k @ ''/'')))"
proof -
  have e1: "fst (filter' tok cond h) = fst (filter' tok cond (h[cond := (h ! cond)\<lparr>user_id := None\<rparr>]))"
    if "user_id (h ! cond) = Some []"
    using assms that by (simp add: filter'_def Let_def nth_append js_or_def js_and_def)
  have e2: "fst (filter' tok cond h) = fst (filter' tok cond (h[cond := (h ! cond)\<lparr>activity_id := None\<rparr>]))"
    if "activity_id (h ! cond) = Some []"
    using assms that by (simp add: filter'_def Let_def nth_append js_or_def js_and_def)
  have e3: "fst (filter' tok cond h) = fst (filter' tok cond (h[cond := (h ! cond)\<lparr>reaction_id := None\<rparr>]))"
    if "reaction_id (h ! cond) = Some []"
    using assms that by (simp add: filter'_def Let_def nth_append js_or_def js_and_def)
  have c1: "fst (filter' tok 0 [empty_conditions\<lparr>user_id := Some []\<rparr>]) = fst (filter' tok 0 [empty_conditions])"
    by (simp add: filter'_def Let_def empty_conditions_def)
  have c2: "fst (filter' tok 0 [empty_conditions\<lparr>user_id := Some []\<rparr>]) = Inl (SiteError
    ''Must provide exactly one value for one of these params: user_id, activity_id, reaction_id'')"
    by (simp add: filter'_def Let_def empty_conditions_def)
  have pass: "\<exists>r. fst (filter' tok cond h) = Inr r \<and> url r = ''reaction/'' @ a @ ''/'' @ v @ ''/'' @ (case kind (h ! cond) of None \<Rightarrow> [] | Some k \<Rightarrow> if k = [] then [] else k @ ''/'')"
    if one: "length (filter truthy [user_id (h ! cond), activity_id (h ! cond), reaction_id (h ! cond)]) = 1"
      and ax: "\<And>r. fst (filter' tok cond h) = Inr r \<Longrightarrow>
                 url r = ''reaction/'' @ a @ ''/'' @ v @ ''/'' @ (case kind (h ! cond) of None \<Rightarrow> [] | Some k \<Rightarrow> if k = [] then [] else k @ ''/'')"
    for a v
  proof -
    from filter'_valid [OF assms one, of tok]
    obtain r where r: "fst (filter' tok cond h) = Inr r" by blast
    from ax [OF r] r show ?thesis by blast
  qed
  have u: "\<exists>r. fst (filter' tok cond h) = Inr r
                 \<and> url r = ''reaction/user_id/'' @ v @ ''/'' @ (case kind (h ! cond) of None \<Rightarrow> [] | Some k \<Rightarrow> if k = [] then [] else k @ ''/'')"
    if "v \<noteq> []" "user_id (h ! cond) = Some v"
       "activity_id (h ! cond) = Some [] \<and> reaction_id (h ! cond) = None
               \<or> activity_id (h ! cond) = None \<and> reaction_id (h ! cond) = Some []" for v
  proof -
    have one: "length (filter truthy [user_id (h ! cond), activity_id (h ! cond), reaction_id (h ! cond)]) = 1"
      using that by auto
    from pass [OF one, of "''user_id''" v] filter'_url(1) [OF assms one _ that(2) that(1)]
    show ?thesis by simp
  qed
  have a: "\<exists>r. fst (filter' tok cond h) = Inr r
                 \<and> url r = ''reaction/activity_id/'' @ v @ ''/'' @ (case kind (h ! cond) of None \<Rightarrow> [] | Some k \<Rightarrow> if k = [] then [] else k @ ''/'')"
    if "v \<noteq> []" "activity_id (h ! cond) = Some v"
       "user_id (h ! cond) = Some [] \<and> reaction_id (h ! cond) = None
               \<or> user_id (h ! cond) = None \<and> reaction_id (h ! cond) = Some []" for v
  proof -
    have one: "length (filter truthy [user_id (h ! cond), activity_id (h ! cond), reaction_id (h ! cond)]) = 1"
      using that by auto
    from pass [OF one, of "''activity_id''" v] filter'_url(2) [OF assms one _ that(2) that(1)]
    show ?thesis by simp
  qed
  have x: "\<exists>r. fst (filter' tok cond h) = Inr r
                 \<and> url r = ''reaction/reaction_id/'' @ v @ ''/'' @ (case kind (h ! cond) of None \<Rightarrow> [] | Some k \<Rightarrow> if k = [] then [] else k @ ''/'')"
    if "v \<noteq> []" "reaction_id (h ! cond) = Some v"
       "user_id (h ! cond) = Some [] \<and> activity_id (h ! cond) = None
               \<or> user_id (h ! cond) = None \<and> activity_id (h ! cond) = Some []" for v
  proof -
    have one: "length (filter truthy [user_id (h ! cond), activity_id (h ! cond), reaction_id (h ! cond)]) = 1"
      using that by auto
    from pass [OF one, of "''reaction_id''" v] filter'_url(3) [OF assms one _ that(2) that(1)]
    show ?thesis by simp
  qed
  from e1 e2 e3 c1 c2 u a x show ?thesis by blast
qed

text \<open>The theorem at \<open>filter({user_id: "", activity_id: "a1"})\<close> and at
  \<open>filter({user_id: ""})\<close>.\<close>

theorem filter_empty_axis_witness:
  "(\<exists>r. fst (filter' ''token'' 0 [empty_conditions\<lparr>user_id := Some [], activity_id := Some ''a1''\<rparr>]) = Inr r
        \<and> url r = ''reaction/activity_id/a1/'')
   \<and> fst (filter' ''token'' 0 [empty_conditions\<lparr>user_id := Some []\<rparr>])
       = fst (filter' ''token'' 0 [empty_conditions])
   \<and> fst (filter' ''token'' 0 [empty_conditions\<lparr>user_id := Some [], activity_id := Some ''a1''\<rparr>])
       = fst (filter' ''token'' 0 [empty_conditions\<lparr>activity_id := Some ''a1''\<rparr>])"
proof -
  let ?h = "[empty_conditions\<lparr>user_id := Some [], activity_id := Some ''a1''\<rparr>]"
  have len: "0 < length ?h" by simp
  have empty: "user_id (?h ! 0) = Some []" by simp
  have other: "''a1'' \<noteq> [] \<and> activity_id (?h ! 0) = Some ''a1''
      \<and> (user_id (?h ! 0) = Some [] \<and> reaction_id (?h ! 0) = None
         \<or> user_id (?h ! 0) = None \<and> reaction_id (?h ! 0) = Some [])"
    by (simp add: empty_conditions_def)
  have unset: "kind (?h ! 0) = None" by (simp add: empty_conditions_def)
  have upd: "?h[0 := (?h ! 0)\<lparr>user_id := None\<rparr>] = [empty_conditions\<lparr>activity_id := Some ''a1''\<rparr>]"
    by (simp add: empty_conditions_def)
  note t = filter_empty_axis [OF len, of "''token''"]
  from t empty have "fst (filter' ''token'' 0 ?h)
      = fst (filter' ''token'' 0 (?h[0 := (?h ! 0)\<lparr>user_id := None\<rparr>]))"
    by blast
  then have a: "fst (filter' ''token'' 0 ?h)
      = fst (filter' ''token'' 0 [empty_conditions\<lparr>activity_id := Some ''a1''\<rparr>])"
    by (simp only: upd)
  from t have b: "fst (filter' ''token'' 0 [empty_conditions\<lparr>user_id := Some []\<rparr>])
       = fst (filter' ''token'' 0 [empty_conditions])"
    by blast
  from t other have "\<exists>r. fst (filter' ''token'' 0 ?h) = Inr r
      \<and> url r = ''reaction/activity_id/'' @ ''a1'' @ ''/'' @
          (case kind (?h ! 0) of None \<Rightarrow> [] | Some k \<Rightarrow> if k = [] then [] else k @ ''/'')"
    by blast
  then have c: "\<exists>r. fst (filter' ''token'' 0 ?h) = Inr r \<and> url r = ''reaction/activity_id/a1/''"
    by (simp only: unset option.case append.simps append_Nil2)
  from c b a show ?thesis by blast
qed

section \<open>The caller's object\<close>

text \<open>
  Claim C10. \<open>filter\<close> never changes the caller's conditions object: after the call every
  object of the store before the call is as it was, the object at \<open>cond\<close> among them, and
  the store has one object more, the copy. When \<open>limit\<close> was unset in the caller's
  object it is still unset there, while the copy carries the default 10.
\<close>

theorem filter_frame:
  "take (length h) (snd (filter' tok cond h)) = h
   \<and> (cond < length h \<longrightarrow>
        snd (filter' tok cond h) ! cond = h ! cond
        \<and> length (snd (filter' tok cond h)) = Suc (length h)
        \<and> (limit (h ! cond) = None \<longrightarrow>
             limit (snd (filter' tok cond h) ! cond) = None
             \<and> limit (snd (filter' tok cond h) ! length h) = Some 10))"
proof (cases "cond < length h")
  case True
  from filter'_store [OF True, of tok] True show ?thesis
    by (simp add: nth_append)
next
  case False
  then show ?thesis by (simp add: filter'_def)
qed

text \<open>The theorem at \<open>filter({user_id: "john"})\<close>, the second object of a store.\<close>

theorem filter_frame_witness:
  "snd (filter' ''token'' 1 [empty_conditions, empty_conditions\<lparr>user_id := Some ''john''\<rparr>]) ! 1
     = empty_conditions\<lparr>user_id := Some ''john''\<rparr>
   \<and> limit (snd (filter' ''token'' 1 [empty_conditions, empty_conditions\<lparr>user_id := Some ''john''\<rparr>]) ! 1)
     = None
   \<and> limit (snd (filter' ''token'' 1 [empty_conditions, empty_conditions\<lparr>user_id := Some ''john''\<rparr>]) ! 2)
     = Some 10"
  using filter_frame [of "[empty_conditions, empty_conditions\<lparr>user_id := Some ''john''\<rparr>]" "''token''" 1]
  by (simp add: empty_conditions_def numeral_2_eq_2)

end
